theory Spec2Isabelle
  imports Complex_Main "HOL-Library.Multiset"
begin

section \<open>KardiaMobile 1-lead ECG: from PDF vector paths to EDF samples\<close>

text \<open>
  A shallow embedding of \<^verbatim>\<open>kardiamobile-1l-ecg-convert-pdf-to-edf.py\<close>.
  Python floats are modelled as the real numbers (no rounding, no NaN, no infinities
  apart from the initial \<^verbatim>\<open>float("inf")\<close> of the row search, which is an
  absent minimum). Exceptions are values of type \<open>error\<close>, returned as \<open>Inl\<close>.
\<close>

subsection \<open>Data model\<close>

text \<open>A PyMuPDF point, with its \<^verbatim>\<open>.x\<close> and \<^verbatim>\<open>.y\<close> attributes.\<close>

datatype point = Point (pt_x: real) (pt_y: real)

text \<open>
  A draw command of a path: the tuple \<^verbatim>\<open>("l", p1, p2)\<close> is a line; the other kinds
  PyMuPDF produces (curve, rectangle, quad) are never consumed.
\<close>

datatype item =
    Line point point
  | Curve point point point point
  | Rect point point
  | Quad point point point point

text \<open>
  A path dictionary of \<^verbatim>\<open>page.get_drawings()\<close>. For \<open>path_items\<close> and
  \<open>path_width\<close> the outer \<open>None\<close> is a missing key; \<open>path_width = Some None\<close> is the
  key present with the value \<^verbatim>\<open>None\<close>. \<^verbatim>\<open>path.get("color")\<close> is \<^verbatim>\<open>None\<close>
  for a missing key and for a stored \<^verbatim>\<open>None\<close> alike.
\<close>

record path =
  path_items :: "item list option"
  path_color :: "(real \<times> real \<times> real) option"
  path_width :: "real option option"

datatype error =
    TypeError
  | RuntimeError string
  | ValueError
  | IndexError
  | KeyError
  | ZeroDivisionError

type_synonym points = "(real \<times> real) list"

type_synonym rows = "nat \<rightharpoonup> points"

text \<open>\<^verbatim>\<open>path.get("items", [])\<close>, \<^verbatim>\<open>path.get("color")\<close>, \<^verbatim>\<open>path.get("width", 0)\<close>.\<close>

definition get_items :: "path \<Rightarrow> item list" where
  "get_items p = (case path_items p of None \<Rightarrow> [] | Some its \<Rightarrow> its)"

definition get_color :: "path \<Rightarrow> (real \<times> real \<times> real) option" where
  "get_color p = path_color p"

definition get_width :: "path \<Rightarrow> real option" where
  "get_width p = (case path_width p of None \<Rightarrow> Some 0 | Some w \<Rightarrow> w)"

text \<open>
  The chained comparison \<^verbatim>\<open>0.35 < width < 0.45\<close>. Python raises TypeError when it
  compares a float with \<^verbatim>\<open>None\<close>.
\<close>

definition width_test :: "real option \<Rightarrow> error + bool" where
  "width_test width =
     (case width of None \<Rightarrow> Inl TypeError | Some w \<Rightarrow> Inr (0.35 < w \<and> w < 0.45))"

subsection \<open>extract_baselines\<close>

text \<open>
  The condition of the \<^verbatim>\<open>if\<close> in \<^verbatim>\<open>extract_baselines\<close>, evaluated left to
  right with the short circuit of \<^verbatim>\<open>and\<close>.
\<close>

definition is_baseline_path :: "path \<Rightarrow> error + bool" where
  "is_baseline_path p =
     (if get_color p = Some (0, 0, 0) then
        (if get_width p \<noteq> None then
           (case width_test (get_width p) of
              Inl e \<Rightarrow> Inl e
            | Inr b \<Rightarrow> if b then Inr (4 \<le> length (get_items p)) else Inr False)
         else Inr False)
      else Inr False)"

text \<open>The inner loop over the items, with \<open>y_values\<close> as accumulator.\<close>

fun horizontal_ys :: "item list \<Rightarrow> real list \<Rightarrow> real list" where
  "horizontal_ys [] y_values = y_values"
| "horizontal_ys (Line p1 p2 # items) y_values =
     (if \<bar>pt_y p1 - pt_y p2\<bar> < 0.01 \<and> \<bar>pt_x p2 - pt_x p1\<bar> > 500
      then horizontal_ys items (y_values @ [pt_y p1])
      else horizontal_ys items y_values)"
| "horizontal_ys (_ # items) y_values = horizontal_ys items y_values"

definition visible :: "real list \<Rightarrow> real list" where
  "visible y_values = filter (\<lambda>y. y < 760) y_values"

text \<open>The result \<open>Inr None\<close> is Python's \<^verbatim>\<open>return None\<close>.\<close>

fun extract_baselines :: "path list \<Rightarrow> error + real list option" where
  "extract_baselines [] = Inr None"
| "extract_baselines (p # paths) =
     (case is_baseline_path p of
        Inl e \<Rightarrow> Inl e
      | Inr b \<Rightarrow>
          if b \<and> 4 \<le> length (visible (horizontal_ys (get_items p) []))
          then Inr (Some (take 4 (visible (horizontal_ys (get_items p) []))))
          else extract_baselines paths)"

subsection \<open>extract_ecg_waveform_rows\<close>

text \<open>
  The condition under which the loop body says \<^verbatim>\<open>continue\<close>, with the short circuit
  of \<^verbatim>\<open>or\<close>: \<open>Inr True\<close> skips the path.
\<close>

definition waveform_skip :: "path \<Rightarrow> error + bool" where
  "waveform_skip p =
     (if get_color p \<noteq> Some (0, 0, 0) then Inr True
      else if get_width p = None then Inr True
      else (case width_test (get_width p) of
              Inl e \<Rightarrow> Inl e
            | Inr b \<Rightarrow> if \<not> b then Inr True else Inr (length (get_items p) < 40)))"

text \<open>The loop over the items, with \<open>pts\<close> as the list \<^verbatim>\<open>points\<close> built so far.\<close>

fun extract_points :: "item list \<Rightarrow> points \<Rightarrow> points" where
  "extract_points [] pts = pts"
| "extract_points (Line p1 p2 # items) pts =
     (if pts = [] \<or> \<bar>fst (last pts) - pt_x p1\<bar> > 0.001 \<or> \<bar>snd (last pts) - pt_y p1\<bar> > 0.001
      then extract_points items (pts @ [(pt_x p1, pt_y p1)] @ [(pt_x p2, pt_y p2)])
      else extract_points items (pts @ [(pt_x p2, pt_y p2)]))"
| "extract_points (_ # items) pts = extract_points items pts"

text \<open>\<^verbatim>\<open>np.mean\<close> of a list; the only call has a non-empty argument.\<close>

definition np_mean :: "real list \<Rightarrow> real" where
  "np_mean ys = sum_list ys / real (length ys)"

text \<open>
  The search for the nearest baseline over \<^verbatim>\<open>enumerate(baselines)\<close>. The state is
  \<open>(min_dist, best_row)\<close>; \<open>min_dist = None\<close> is \<^verbatim>\<open>float("inf")\<close>.
\<close>

definition lt_dist :: "real \<Rightarrow> real option \<Rightarrow> bool" where
  "lt_dist d m = (case m of None \<Rightarrow> True | Some v \<Rightarrow> d < v)"

fun nearest_row :: "real \<Rightarrow> (nat \<times> real) list \<Rightarrow> real option \<times> int \<Rightarrow> real option \<times> int" where
  "nearest_row y_center [] st = st"
| "nearest_row y_center ((ri, bl) # rest) (min_dist, best_row) =
     (if lt_dist \<bar>y_center - bl\<bar> min_dist
      then nearest_row y_center rest (Some \<bar>y_center - bl\<bar>, int ri)
      else nearest_row y_center rest (min_dist, best_row))"

text \<open>\<^verbatim>\<open>min_dist < 80\<close>, where the infinite distance is not below 80.\<close>

definition dist_below :: "real option \<Rightarrow> real \<Rightarrow> bool" where
  "dist_below m c = (case m of None \<Rightarrow> False | Some v \<Rightarrow> v < c)"

text \<open>\<^verbatim>\<open>rows[best_row].extend(points)\<close>; a missing key raises KeyError.\<close>

definition rows_extend :: "rows \<Rightarrow> nat \<Rightarrow> points \<Rightarrow> error + rows" where
  "rows_extend rws k pts =
     (case rws k of None \<Rightarrow> Inl KeyError | Some old \<Rightarrow> Inr (rws(k \<mapsto> old @ pts)))"

text \<open>The body of the loop over the paths: one path, the rows so far, the rows after.\<close>

definition process_path :: "path \<Rightarrow> real list \<Rightarrow> rows \<Rightarrow> error + rows" where
  "process_path p baselines rws =
     (case waveform_skip p of
        Inl e \<Rightarrow> Inl e
      | Inr skip \<Rightarrow>
          if skip then Inr rws
          else if length (get_items p) = 1 then Inr rws
          else
            let pts = extract_points (get_items p) [] in
            if pts = [] then Inr rws
            else
              let y_center = np_mean (map snd pts);
                  st = nearest_row y_center (enumerate 0 baselines) (None, - 1)
              in if snd st \<ge> 0 \<and> dist_below (fst st) 80
                 then rows_extend rws (nat (snd st)) pts
                 else Inr rws)"

fun paths_loop :: "path list \<Rightarrow> real list \<Rightarrow> rows \<Rightarrow> error + rows" where
  "paths_loop [] baselines rws = Inr rws"
| "paths_loop (p # paths) baselines rws =
     (case process_path p baselines rws of
        Inl e \<Rightarrow> Inl e
      | Inr rws' \<Rightarrow> paths_loop paths baselines rws')"

text \<open>\<^verbatim>\<open>{i: [] for i in range(len(baselines))}\<close>\<close>

definition init_rows :: "real list \<Rightarrow> rows" where
  "init_rows baselines = (\<lambda>i. if i < length baselines then Some [] else None)"

text \<open>Python's \<^verbatim>\<open>list.sort\<close> is stable, as \<open>sort_key\<close> is.\<close>

definition sort_rows :: "rows \<Rightarrow> rows" where
  "sort_rows rws = (\<lambda>ri. map_option (sort_key fst) (rws ri))"

definition extract_ecg_waveform_rows :: "path list \<Rightarrow> real list \<Rightarrow> error + rows" where
  "extract_ecg_waveform_rows paths baselines =
     (case paths_loop paths baselines (init_rows baselines) of
        Inl e \<Rightarrow> Inl e
      | Inr rws \<Rightarrow> Inr (sort_rows rws))"

subsection \<open>points_to_voltage\<close>

text \<open>
  A float division by zero raises; with no points nothing is divided. The subtraction
  and the division are those of the real numbers: the double-precision result of the code
  can differ from this value in the last bits (for the point \<open>(7, 71.654)\<close>, the
  baseline 100 and the scale 28.346 the code gives 1.0000000000000002, this definition 1).
\<close>

definition points_to_voltage :: "points \<Rightarrow> real \<Rightarrow> real \<Rightarrow> error + real list" where
  "points_to_voltage pts baseline_y cal_pt_per_mv =
     (if pts \<noteq> [] \<and> cal_pt_per_mv = 0 then Inl ZeroDivisionError
      else Inr (map (\<lambda>p. (baseline_y - snd p) / cal_pt_per_mv) pts))"

subsection \<open>main\<close>

definition CAL_PT_PER_MV :: real where
  "CAL_PT_PER_MV = 28.346"

definition SAMPLE_RATE :: nat where
  "SAMPLE_RATE = 300"

definition LEAD_NAME :: string where
  "LEAD_NAME = ''I''"

text \<open>
  The deduplication loop \<^verbatim>\<open>for i in range(1, len(points))\<close>: the points still to
  visit and the list \<^verbatim>\<open>deduped\<close>, which starts as \<^verbatim>\<open>[points[0]]\<close> and is never
  empty.
\<close>

fun dedup_loop :: "points \<Rightarrow> points \<Rightarrow> points" where
  "dedup_loop [] deduped = deduped"
| "dedup_loop (p # ps) deduped =
     (if \<bar>fst p - fst (last deduped)\<bar> > 0.01
      then dedup_loop ps (deduped @ [p])
      else dedup_loop ps deduped)"

text \<open>\<^verbatim>\<open>points[0]\<close> of an empty list raises IndexError.\<close>

definition dedup :: "points \<Rightarrow> error + points" where
  "dedup pts = (case pts of [] \<Rightarrow> Inl IndexError | p0 # ps \<Rightarrow> Inr (dedup_loop ps [p0]))"

text \<open>\<^verbatim>\<open>baselines[ri]\<close>\<close>

definition py_index :: "'a list \<Rightarrow> nat \<Rightarrow> error + 'a" where
  "py_index xs i = (if i < length xs then Inr (xs ! i) else Inl IndexError)"

text \<open>
  The loop \<^verbatim>\<open>for ri in range(len(baselines))\<close> of \<^verbatim>\<open>main\<close>, over the row
  indices still to visit, with \<^verbatim>\<open>all_voltages\<close> as accumulator.
\<close>

fun rows_loop :: "nat list \<Rightarrow> rows \<Rightarrow> real list \<Rightarrow> real list \<Rightarrow> error + real list" where
  "rows_loop [] rws baselines all_voltages = Inr all_voltages"
| "rows_loop (ri # ris) rws baselines all_voltages =
     (case rws ri of
        None \<Rightarrow> Inl KeyError
      | Some pts \<Rightarrow>
          if pts = [] then rows_loop ris rws baselines all_voltages
          else
            (case dedup pts of
               Inl e \<Rightarrow> Inl e
             | Inr deduped \<Rightarrow>
                 (case py_index baselines ri of
                    Inl e \<Rightarrow> Inl e
                  | Inr bl \<Rightarrow>
                      (case points_to_voltage deduped bl CAL_PT_PER_MV of
                         Inl e \<Rightarrow> Inl e
                       | Inr voltages \<Rightarrow>
                           rows_loop ris rws baselines (all_voltages @ voltages)))))"

definition concat_rows :: "rows \<Rightarrow> real list \<Rightarrow> error + real list" where
  "concat_rows rws baselines = rows_loop [0..<length baselines] rws baselines []"

text \<open>\<^verbatim>\<open>signal.min()\<close> and \<^verbatim>\<open>np.min(signal)\<close> raise ValueError on an empty array.\<close>

definition np_min :: "real list \<Rightarrow> error + real" where
  "np_min signal = (case signal of [] \<Rightarrow> Inl ValueError | v # vs \<Rightarrow> Inr (fold min vs v))"

definition np_max :: "real list \<Rightarrow> error + real" where
  "np_max signal = (case signal of [] \<Rightarrow> Inl ValueError | v # vs \<Rightarrow> Inr (fold max vs v))"

text \<open>What the EDF writer is given before it is closed.\<close>

record edf_file =
  patient_name :: string
  sex :: nat
  birthdate :: "nat \<times> nat \<times> nat"
  startdatetime :: "nat \<times> nat \<times> nat \<times> nat \<times> nat \<times> nat"
  equipment :: string
  recording_additional :: string
  label :: string
  physical_dimension :: string
  sample_frequency :: nat
  transducer :: string
  prefilter :: string
  physical_minimum :: real
  physical_maximum :: real
  digital_minimum :: int
  digital_maximum :: int
  samples :: "real list"

text \<open>What the run prints about the whole signal.\<close>

record report =
  total_samples :: nat
  duration_sec :: real
  voltage_range :: "real \<times> real"

definition write_edf :: "real list \<Rightarrow> real \<Rightarrow> real \<Rightarrow> edf_file" where
  "write_edf signal phys_min phys_max =
     \<lparr> patient_name = ''Joel_Henderson'',
       sex = 1,
       birthdate = (1970, 5, 4),
       startdatetime = (2026, 2, 13, 22, 42, 0),
       equipment = ''KardiaMobile_1L'',
       recording_additional = ''Normal_Sinus_Rhythm_HR_76_BPM'',
       label = ''EKG '' @ LEAD_NAME,
       physical_dimension = ''mV'',
       sample_frequency = SAMPLE_RATE,
       transducer = ''KardiaMobile 1L electrode'',
       prefilter = ''Enhanced Filter, 50Hz mains'',
       physical_minimum = phys_min,
       physical_maximum = phys_max,
       digital_minimum = - 32768,
       digital_maximum = 32767,
       samples = signal \<rparr>"

text \<open>
  \<^verbatim>\<open>main\<close>, from the drawings of page index 1 on. The second argument and the
  second component of the result are the file at the output path before and after the
  run (\<open>None\<close>: no file). Every \<^verbatim>\<open>raise\<close> comes before the EDF writer is created,
  so an error leaves the file as it was.
\<close>

definition main :: "path list \<Rightarrow> edf_file option \<Rightarrow> (error + report) \<times> edf_file option" where
  "main page fs =
     (case extract_baselines page of
        Inl e \<Rightarrow> (Inl e, fs)
      | Inr None \<Rightarrow> (Inl (RuntimeError ''Could not find baseline grid lines in PDF''), fs)
      | Inr (Some baselines) \<Rightarrow>
          if baselines = []
          then (Inl (RuntimeError ''Could not find baseline grid lines in PDF''), fs)
          else
            (case extract_ecg_waveform_rows page baselines of
               Inl e \<Rightarrow> (Inl e, fs)
             | Inr rws \<Rightarrow>
                 (case concat_rows rws baselines of
                    Inl e \<Rightarrow> (Inl e, fs)
                  | Inr signal \<Rightarrow>
                      (case np_min signal of
                         Inl e \<Rightarrow> (Inl e, fs)
                       | Inr lo \<Rightarrow>
                           (case np_max signal of
                              Inl e \<Rightarrow> (Inl e, fs)
                            | Inr hi \<Rightarrow>
                                (Inr \<lparr> total_samples = length signal,
                                       duration_sec = real (length signal) / real SAMPLE_RATE,
                                       voltage_range = (lo, hi) \<rparr>,
                                 Some (write_edf signal (lo - 0.1) (hi + 0.1))))))))"

subsection \<open>Notions used in the statements\<close>

text \<open>
  The classification rules as the specification words them: a width strictly between
  0.35 and 0.45 (an absent width is not in range), pure black, and at least 4 (baseline)
  or 40 (waveform) draw commands.
\<close>

definition width_in_range :: "path \<Rightarrow> bool" where
  "width_in_range p = (case get_width p of None \<Rightarrow> False | Some w \<Rightarrow> 0.35 < w \<and> w < 0.45)"

definition baseline_rule :: "path \<Rightarrow> bool" where
  "baseline_rule p =
     (get_color p = Some (0, 0, 0) \<and> width_in_range p \<and> 4 \<le> length (get_items p))"

definition waveform_rule :: "path \<Rightarrow> bool" where
  "waveform_rule p =
     (get_color p = Some (0, 0, 0) \<and> width_in_range p \<and> 40 \<le> length (get_items p))"

text \<open>
  A candidate baseline segment: a line command with endpoint y-difference below 0.01,
  horizontal extent above 500 and y below the cutoff 760; its value is the y of its
  first endpoint. \<open>surviving_ys\<close> lists these values in encounter order.
\<close>

fun segment_baseline :: "item \<Rightarrow> real option" where
  "segment_baseline (Line p1 p2) =
     (if \<bar>pt_y p1 - pt_y p2\<bar> < 0.01 \<and> \<bar>pt_x p2 - pt_x p1\<bar> > 500 \<and> pt_y p1 < 760
      then Some (pt_y p1) else None)"
| "segment_baseline _ = None"

definition surviving_ys :: "item list \<Rightarrow> real list" where
  "surviving_ys items = List.map_filter segment_baseline items"

text \<open>A path that meets the baseline rule and holds at least 4 surviving segments.\<close>

definition grid_path :: "path \<Rightarrow> bool" where
  "grid_path p = (baseline_rule p \<and> 4 \<le> length (surviving_ys (get_items p)))"

text \<open>
  The points the loop body extracts from a path, and the row it extends with them
  (\<open>None\<close>: the path is skipped or dropped), read off the body of the loop.
\<close>

definition path_points :: "path \<Rightarrow> points" where
  "path_points p = extract_points (get_items p) []"

definition target_row :: "real list \<Rightarrow> path \<Rightarrow> nat option" where
  "target_row bl p =
     (if waveform_rule p \<and> path_points p \<noteq> [] then
        (let st = nearest_row (np_mean (map snd (path_points p))) (enumerate 0 bl) (None, - 1)
         in if snd st \<ge> 0 \<and> dist_below (fst st) 80 then Some (nat (snd st)) else None)
      else None)"

text \<open>
  Row \<open>r\<close> is the nearest to \<open>yc\<close>: no baseline is nearer, and every earlier
  baseline is strictly farther.
\<close>

definition nearest :: "real list \<Rightarrow> real \<Rightarrow> nat \<Rightarrow> bool" where
  "nearest bl yc r =
     (r < length bl \<and> (\<forall>j<length bl. \<bar>yc - bl ! r\<bar> \<le> \<bar>yc - bl ! j\<bar>) \<and>
      (\<forall>j<r. \<bar>yc - bl ! r\<bar> < \<bar>yc - bl ! j\<bar>))"

text \<open>
  The deduplication in the words of the specification: after a kept point with
  x-coordinate \<open>x\<close>, drop the points whose x differs from it by at most 0.01 and keep
  the first one that differs by more.
\<close>

fun kept_after :: "real \<Rightarrow> points \<Rightarrow> points" where
  "kept_after x [] = []"
| "kept_after x (p # ps) =
     (if \<bar>fst p - x\<bar> \<le> 0.01 then kept_after x ps else p # kept_after (fst p) ps)"

text \<open>The voltages of the deduplicated points of row \<open>ri\<close>; none for an empty row.\<close>

definition row_voltages :: "rows \<Rightarrow> real list \<Rightarrow> nat \<Rightarrow> real list" where
  "row_voltages rws bl ri =
     (case rws ri of
        Some (p0 # ps) \<Rightarrow> map (\<lambda>p. (bl ! ri - snd p) / CAL_PT_PER_MV) (dedup_loop ps [p0])
      | _ \<Rightarrow> [])"

text \<open>Example paths: a horizontal line across the page at height \<open>y\<close>.\<close>

definition hline :: "real \<Rightarrow> item" where
  "hline y = Line (Point 20 y) (Point 580 y)"

text \<open>
  The grid path: black, width 0.4, with four baselines among a short line, a slanted
  line, a line below the visible area, a rectangle and a fifth baseline.
\<close>

definition grid_example :: path where
  "grid_example =
     \<lparr> path_items = Some [Line (Point 20 50) (Point 300 50), hline 100,
                          Line (Point 20 150) (Point 580 180), hline 200, hline 800,
                          Rect (Point 0 0) (Point 600 800), hline 300, hline 400, hline 500],
       path_color = Some (0, 0, 0),
       path_width = Some (Some 0.4) \<rparr>"

text \<open>Decoys: the page frame (width 1), a red path, a path of three lines.\<close>

definition frame_example :: path where
  "frame_example =
     \<lparr> path_items = Some [hline 10, hline 20, hline 30, hline 40],
       path_color = Some (0, 0, 0),
       path_width = Some (Some 1) \<rparr>"

definition red_example :: path where
  "red_example =
     \<lparr> path_items = Some [hline 11, hline 21, hline 31, hline 41],
       path_color = Some (1, 0, 0),
       path_width = Some (Some 0.4) \<rparr>"

definition sparse_example :: path where
  "sparse_example =
     \<lparr> path_items = Some [hline 12, hline 22, hline 32],
       path_color = Some (0, 0, 0),
       path_width = Some (Some 0.4) \<rparr>"

text \<open>Paths whose width is \<^verbatim>\<open>None\<close>, and whose width key is missing.\<close>

definition none_width_example :: path where
  "none_width_example =
     \<lparr> path_items = Some [hline 13, hline 23, hline 33, hline 43],
       path_color = Some (0, 0, 0),
       path_width = Some None \<rparr>"

definition missing_width_example :: path where
  "missing_width_example =
     \<lparr> path_items = Some [hline 14, hline 24, hline 34, hline 44],
       path_color = Some (0, 0, 0),
       path_width = None \<rparr>"

text \<open>A grid path whose baselines are drawn in the order 400, 100, 300, 200, 50.\<close>

definition unsorted_grid_example :: path where
  "unsorted_grid_example =
     \<lparr> path_items = Some [hline 400, hline 100, hline 300, hline 200, hline 50],
       path_color = Some (0, 0, 0),
       path_width = Some (Some 0.4) \<rparr>"

text \<open>
  The point extraction in the words of the specification: walk the line commands in
  order, with the most recently appended point; take the first endpoint unless it is a
  near-duplicate (within 0.001 in both axes) of that point; always take the second.
\<close>

definition near_duplicate :: "(real \<times> real) option \<Rightarrow> point \<Rightarrow> bool" where
  "near_duplicate recent p1 =
     (case recent of
        None \<Rightarrow> False
      | Some q \<Rightarrow> \<bar>fst q - pt_x p1\<bar> \<le> 0.001 \<and> \<bar>snd q - pt_y p1\<bar> \<le> 0.001)"

fun walk_lines :: "(real \<times> real) option \<Rightarrow> item list \<Rightarrow> points" where
  "walk_lines recent [] = []"
| "walk_lines recent (Line p1 p2 # items) =
     (if near_duplicate recent p1 then [] else [(pt_x p1, pt_y p1)]) @
     (pt_x p2, pt_y p2) # walk_lines (Some (pt_x p2, pt_y p2)) items"
| "walk_lines recent (_ # items) = walk_lines recent items"

text \<open>
  Example waveform paths: the given line commands, padded with rectangles to 40 draw
  commands, in the given colour and with width 0.4.
\<close>

definition pad40 :: "item list \<Rightarrow> item list" where
  "pad40 lines = lines @ replicate (40 - length lines) (Rect (Point 0 0) (Point 1 1))"

definition wave_path :: "real \<times> real \<times> real \<Rightarrow> item list \<Rightarrow> path" where
  "wave_path c lines =
     \<lparr> path_items = Some (pad40 lines), path_color = Some c, path_width = Some (Some 0.4) \<rparr>"

definition wave0_lines :: "item list" where
  "wave0_lines = [Line (Point 30 71.654) (Point 31 100), Line (Point 31 100) (Point 32 128.346)]"

definition wave2_lines :: "item list" where
  "wave2_lines = [Line (Point 30 300) (Point 31 300)]"

definition wave3_lines :: "item list" where
  "wave3_lines = [Line (Point 30 343.308) (Point 31 400), Line (Point 31 400) (Point 32 456.692),
                  Line (Point 32 456.692) (Point 33 400)]"

text \<open>A page whose rows 0 to 3 receive 3, 0, 2 and 4 points.\<close>

definition example_page :: "path list" where
  "example_page =
     [frame_example, wave_path (0, 0, 0) wave0_lines, grid_example,
      wave_path (1, 0, 0) wave0_lines, wave_path (0, 0, 0) wave3_lines,
      wave_path (0, 0, 0) wave2_lines]"

definition example_baselines :: "real list" where
  "example_baselines = [100, 200, 300, 400]"

text \<open>
  A page whose rows 0 to 3 receive 3, 0, 2 and 4 points, where the first two points of
  row 0 are 0.005 apart in x.
\<close>

definition close_lines :: "item list" where
  "close_lines = [Line (Point 30 71.654) (Point 30.005 100),
                  Line (Point 30.005 100) (Point 32 128.346)]"

definition close_page :: "path list" where
  "close_page =
     [grid_example, wave_path (0, 0, 0) close_lines, wave_path (0, 0, 0) wave2_lines,
      wave_path (0, 0, 0) wave3_lines]"

section \<open>Properties\<close>

lemma is_baseline_path_rule: "is_baseline_path p = Inr (baseline_rule p)"
  by (auto simp add: is_baseline_path_def baseline_rule_def width_in_range_def width_test_def
      split: option.splits)

lemma waveform_skip_rule: "waveform_skip p = Inr (\<not> waveform_rule p)"
  by (auto simp add: waveform_skip_def waveform_rule_def width_in_range_def width_test_def
      split: option.splits)

lemma surviving_ys_Nil: "surviving_ys [] = []"
  by (simp add: surviving_ys_def)

lemma surviving_ys_Cons:
  "surviving_ys (it # items) =
     (case segment_baseline it of None \<Rightarrow> surviving_ys items | Some y \<Rightarrow> y # surviving_ys items)"
  by (cases "segment_baseline it") (simp_all add: surviving_ys_def)

lemma visible_horizontal_ys:
  "visible (horizontal_ys items acc) = visible acc @ surviving_ys items"
proof (induction items acc rule: horizontal_ys.induct)
  case (1 y_values)
  show ?case by (simp add: surviving_ys_Nil)
next
  case (2 p1 p2 items y_values)
  then show ?case by (simp add: surviving_ys_Cons visible_def)
qed (simp_all add: surviving_ys_Cons)

lemma visible_Nil: "visible [] = []"
  by (simp add: visible_def)

lemma extract_baselines_step:
  "extract_baselines (p # paths) =
     (if grid_path p then Inr (Some (take 4 (surviving_ys (get_items p))))
      else extract_baselines paths)"
  by (simp add: is_baseline_path_rule visible_horizontal_ys grid_path_def visible_Nil)

lemma extract_baselines_find:
  "extract_baselines paths =
     Inr (map_option (\<lambda>q. take 4 (surviving_ys (get_items q))) (List.find grid_path paths))"
  by (induction paths) (simp_all only: extract_baselines.simps(1) extract_baselines_step
      find.simps option.map if_distrib [of "map_option _"] split: if_splits, simp_all)

lemma extract_baselines_append:
  "extract_baselines (pre @ suf) =
     (if \<exists>r \<in> set pre. grid_path r then extract_baselines pre else extract_baselines suf)"
  by (induction pre) (simp_all only: extract_baselines_step append.simps, auto)

lemma nearest_row_enumerate:
  "(nearest_row yc (enumerate n xs) (md, br) = (md, br) \<and>
      (\<forall>j<length xs. \<not> lt_dist \<bar>yc - xs ! j\<bar> md)) \<or>
   (\<exists>r. nearest xs yc r \<and> lt_dist \<bar>yc - xs ! r\<bar> md \<and>
      nearest_row yc (enumerate n xs) (md, br) = (Some \<bar>yc - xs ! r\<bar>, int (n + r)))"
proof (induction xs arbitrary: n md br)
  case Nil
  show ?case by simp
next
  case (Cons x xs)
  let ?d = "\<bar>yc - x\<bar>"
  show ?case
  proof (cases "lt_dist ?d md")
    case True
    from Cons.IH [of "Suc n" "Some ?d" "int n"] show ?thesis
    proof
      assume a: "nearest_row yc (enumerate (Suc n) xs) (Some ?d, int n) = (Some ?d, int n) \<and>
        (\<forall>j<length xs. \<not> lt_dist \<bar>yc - xs ! j\<bar> (Some ?d))"
      have "nearest (x # xs) yc 0"
        using a by (auto simp: nearest_def lt_dist_def nth_Cons split: nat.splits)
      with a True show ?thesis by auto
    next
      assume "\<exists>r. nearest xs yc r \<and> lt_dist \<bar>yc - xs ! r\<bar> (Some ?d) \<and>
        nearest_row yc (enumerate (Suc n) xs) (Some ?d, int n) = (Some \<bar>yc - xs ! r\<bar>, int (Suc n + r))"
      then obtain r where r: "nearest xs yc r" "\<bar>yc - xs ! r\<bar> < ?d"
        "nearest_row yc (enumerate (Suc n) xs) (Some ?d, int n) = (Some \<bar>yc - xs ! r\<bar>, int (Suc n + r))"
        by (auto simp: lt_dist_def)
      have "nearest (x # xs) yc (Suc r)"
        using r(1,2) by (auto simp: nearest_def nth_Cons less_Suc_eq_0_disj split: nat.splits)
      moreover have "lt_dist \<bar>yc - (x # xs) ! Suc r\<bar> md"
        using True r(2) by (auto simp: lt_dist_def split: option.splits)
      ultimately show ?thesis using True r(3) by auto
    qed
  next
    case False
    from Cons.IH [of "Suc n" md br] show ?thesis
    proof
      assume a: "nearest_row yc (enumerate (Suc n) xs) (md, br) = (md, br) \<and>
        (\<forall>j<length xs. \<not> lt_dist \<bar>yc - xs ! j\<bar> md)"
      with False show ?thesis by (auto simp: nth_Cons split: nat.splits)
    next
      assume "\<exists>r. nearest xs yc r \<and> lt_dist \<bar>yc - xs ! r\<bar> md \<and>
        nearest_row yc (enumerate (Suc n) xs) (md, br) = (Some \<bar>yc - xs ! r\<bar>, int (Suc n + r))"
      then obtain r where r: "nearest xs yc r" "lt_dist \<bar>yc - xs ! r\<bar> md"
        "nearest_row yc (enumerate (Suc n) xs) (md, br) = (Some \<bar>yc - xs ! r\<bar>, int (Suc n + r))"
        by auto
      have lt: "\<bar>yc - xs ! r\<bar> < ?d"
        using False r(2) by (auto simp: lt_dist_def split: option.splits)
      have "nearest (x # xs) yc (Suc r)"
        using r(1) lt by (auto simp: nearest_def nth_Cons less_Suc_eq_0_disj split: nat.splits)
      with False r show ?thesis by auto
    qed
  qed
qed

lemma nearest_unique: "nearest bl yc r \<Longrightarrow> nearest bl yc r' \<Longrightarrow> r = r'"
  unfolding nearest_def by (metis linorder_neqE_nat not_less)

lemma nearest_row_start:
  "(bl = [] \<and> nearest_row yc (enumerate 0 bl) (None, - 1) = (None, - 1)) \<or>
   (\<exists>r. nearest bl yc r \<and>
      nearest_row yc (enumerate 0 bl) (None, - 1) = (Some \<bar>yc - bl ! r\<bar>, int r))"
  using nearest_row_enumerate [of yc 0 bl None "- 1"]
  by (cases bl) (auto simp: lt_dist_def)

lemma target_row_Some_iff:
  "(target_row bl p = Some r) =
     (waveform_rule p \<and> path_points p \<noteq> [] \<and>
      nearest bl (np_mean (map snd (path_points p))) r \<and>
      \<bar>np_mean (map snd (path_points p)) - bl ! r\<bar> < 80)"
proof (cases "waveform_rule p \<and> path_points p \<noteq> []")
  case False
  then show ?thesis by (auto simp: target_row_def)
next
  case True
  let ?yc = "np_mean (map snd (path_points p))"
  from nearest_row_start [of bl ?yc] show ?thesis
  proof
    assume "bl = [] \<and> nearest_row ?yc (enumerate 0 bl) (None, - 1) = (None, - 1)"
    then show ?thesis by (simp add: target_row_def nearest_def)
  next
    assume "\<exists>r. nearest bl ?yc r \<and>
      nearest_row ?yc (enumerate 0 bl) (None, - 1) = (Some \<bar>?yc - bl ! r\<bar>, int r)"
    then obtain r0 where r0: "nearest bl ?yc r0"
      "nearest_row ?yc (enumerate 0 bl) (None, - 1) = (Some \<bar>?yc - bl ! r0\<bar>, int r0)"
      by auto
    have "target_row bl p = (if \<bar>?yc - bl ! r0\<bar> < 80 then Some r0 else None)"
      using True r0(2) by (simp add: target_row_def dist_below_def)
    then show ?thesis
      using True r0(1) by (auto dest: nearest_unique)
  qed
qed

lemma target_row_less: "target_row bl p = Some r \<Longrightarrow> r < length bl"
  by (simp add: target_row_Some_iff nearest_def)

lemma process_path_eq:
  assumes "\<forall>i<length bl. rws i \<noteq> None"
  shows "process_path p bl rws =
     Inr (case target_row bl p of None \<Rightarrow> rws
          | Some r \<Rightarrow> rws(r \<mapsto> the (rws r) @ path_points p))"
proof (cases "target_row bl p")
  case None
  then show ?thesis
    by (auto simp: process_path_def waveform_skip_rule target_row_def path_points_def Let_def
        waveform_rule_def split: if_splits)
next
  case (Some r)
  then have "r < length bl" by (rule target_row_less)
  with assms obtain old where "rws r = Some old" by auto
  with Some show ?thesis
    by (auto simp: process_path_def waveform_skip_rule target_row_def path_points_def Let_def
        waveform_rule_def rows_extend_def split: if_splits)
qed

lemma paths_loop_eq:
  assumes "\<forall>i<length bl. rws i \<noteq> None"
  shows "paths_loop paths bl rws =
     Inr (\<lambda>ri. if ri < length bl
                then Some (the (rws ri) @
                           concat (map path_points (filter (\<lambda>p. target_row bl p = Some ri) paths)))
                else rws ri)"
  using assms
proof (induction paths arbitrary: rws)
  case Nil
  then show ?case by auto
next
  case (Cons p paths)
  let ?rws' = "case target_row bl p of None \<Rightarrow> rws
          | Some r \<Rightarrow> rws(r \<mapsto> the (rws r) @ path_points p)"
  have step: "process_path p bl rws = Inr ?rws'"
    using Cons.prems by (rule process_path_eq)
  have dom': "\<forall>i<length bl. ?rws' i \<noteq> None"
    using Cons.prems by (auto split: option.splits)
  show ?case
    unfolding paths_loop.simps step sum.case Cons.IH [OF dom']
    by (cases "target_row bl p") (auto simp: fun_eq_iff dest: target_row_less)
qed

lemma extract_ecg_waveform_rows_eq:
  "extract_ecg_waveform_rows paths bl =
     Inr (\<lambda>ri. if ri < length bl
                then Some (sort_key fst
                       (concat (map path_points (filter (\<lambda>p. target_row bl p = Some ri) paths))))
                else None)"
  unfolding extract_ecg_waveform_rows_def
  by (subst paths_loop_eq) (auto simp: init_rows_def sort_rows_def)

lemma dedup_loop_eq:
  "deduped \<noteq> [] \<Longrightarrow>
     dedup_loop ps deduped = deduped @ kept_after (fst (last deduped)) ps"
  by (induction ps arbitrary: deduped) auto

lemma kept_after_idem: "kept_after x (kept_after x ps) = kept_after x ps"
  by (induction ps arbitrary: x) auto

lemma dedup_Cons: "dedup (p0 # ps) = Inr (p0 # kept_after (fst p0) ps)"
  by (simp add: dedup_def dedup_loop_eq)

lemma dedup_loop_not_Nil: "deduped \<noteq> [] \<Longrightarrow> dedup_loop ps deduped \<noteq> []"
  by (simp add: dedup_loop_eq)

lemma CAL_nonzero: "CAL_PT_PER_MV \<noteq> 0"
  by (simp add: CAL_PT_PER_MV_def)

lemma rows_loop_eq:
  assumes "\<forall>ri \<in> set ris. ri < length bl \<and> rws ri \<noteq> None"
  shows "rows_loop ris rws bl acc = Inr (acc @ concat (map (row_voltages rws bl) ris))"
  using assms
proof (induction ris arbitrary: acc)
  case Nil
  show ?case by simp
next
  case (Cons ri ris)
  then obtain pts where pts: "rws ri = Some pts" and lt: "ri < length bl" by auto
  have IH: "\<And>acc. rows_loop ris rws bl acc = Inr (acc @ concat (map (row_voltages rws bl) ris))"
    using Cons by simp
  show ?case
  proof (cases pts)
    case Nil
    with pts have "row_voltages rws bl ri = []" by (simp add: row_voltages_def)
    with Nil pts IH show ?thesis by simp
  next
    case (Cons p0 ps)
    with pts have "row_voltages rws bl ri =
        map (\<lambda>p. (bl ! ri - snd p) / CAL_PT_PER_MV) (dedup_loop ps [p0])"
      by (simp add: row_voltages_def)
    with Cons pts lt IH show ?thesis
      by (simp add: dedup_def py_index_def points_to_voltage_def CAL_nonzero)
  qed
qed

lemma concat_rows_eq:
  assumes "\<forall>ri<length bl. rws ri \<noteq> None"
  shows "concat_rows rws bl = Inr (concat (map (row_voltages rws bl) [0..<length bl]))"
  unfolding concat_rows_def using assms by (subst rows_loop_eq) auto

lemma upt_4: "[0..<4] = [0, 1, 2, 3]"
  by (simp add: upt_rec)

lemma extract_baselines_Some_length:
  "extract_baselines page = Inr (Some bl) \<Longrightarrow> length bl = 4"
  by (auto simp: extract_baselines_find grid_path_def dest!: find_Some_iff [THEN iffD1])

lemma extract_rows_defined:
  "extract_ecg_waveform_rows page bl = Inr rws \<Longrightarrow> ri < length bl \<Longrightarrow> rws ri \<noteq> None"
  by (auto simp: extract_ecg_waveform_rows_eq)

lemma np_min_eq: "signal \<noteq> [] \<Longrightarrow> np_min signal = Inr (Min (set signal))"
  by (cases signal) (simp_all add: np_min_def Min.set_eq_fold del: set_simps)

lemma np_max_eq: "signal \<noteq> [] \<Longrightarrow> np_max signal = Inr (Max (set signal))"
  by (cases signal) (simp_all add: np_max_def Max.set_eq_fold del: set_simps)

lemma main_after_baselines:
  assumes "extract_baselines page = Inr (Some bl)"
    and "extract_ecg_waveform_rows page bl = Inr rws"
    and "concat_rows rws bl = Inr signal"
  shows "main page fs =
     (if signal = [] then (Inl ValueError, fs)
      else (Inr \<lparr> total_samples = length signal,
                  duration_sec = real (length signal) / 300,
                  voltage_range = (Min (set signal), Max (set signal)) \<rparr>,
            Some (write_edf signal (Min (set signal) - 0.1) (Max (set signal) + 0.1))))"
proof -
  have "bl \<noteq> []" using extract_baselines_Some_length [OF assms(1)] by auto
  then show ?thesis
    using assms by (cases "signal = []") (simp_all add: main_def np_min_eq np_max_eq SAMPLE_RATE_def, simp add: np_min_def)
qed

lemma main_no_baselines:
  assumes "extract_baselines page = Inr None"
  shows "main page fs = (Inl (RuntimeError ''Could not find baseline grid lines in PDF''), fs)"
  using assms by (simp add: main_def)

lemmas example_defs =
  hline_def grid_example_def frame_example_def red_example_def sparse_example_def
  none_width_example_def missing_width_example_def unsorted_grid_example_def

lemmas rule_defs =
  baseline_rule_def waveform_rule_def width_in_range_def get_items_def get_color_def
  get_width_def surviving_ys_def grid_path_def

lemma main_cases:
  assumes "extract_baselines page = Inr (Some bl)"
  shows "\<exists>rws signal. extract_ecg_waveform_rows page bl = Inr rws \<and>
           concat_rows rws bl = Inr signal \<and>
           main page fs =
             (if signal = [] then (Inl ValueError, fs)
              else (Inr \<lparr> total_samples = length signal,
                          duration_sec = real (length signal) / 300,
                          voltage_range = (Min (set signal), Max (set signal)) \<rparr>,
                    Some (write_edf signal (Min (set signal) - 0.1) (Max (set signal) + 0.1))))"
proof -
  obtain rws where rws: "extract_ecg_waveform_rows page bl = Inr rws"
    by (simp add: extract_ecg_waveform_rows_eq)
  then have "\<forall>ri<length bl. rws ri \<noteq> None"
    by (auto dest: extract_rows_defined)
  then obtain signal where signal: "concat_rows rws bl = Inr signal"
    by (simp add: concat_rows_eq)
  from main_after_baselines [OF assms rws signal] rws signal show ?thesis
    by blast
qed

text \<open>
  Claim C1 as stated fails. A black path of width 0.4 whose horizontal lines are drawn
  at y = 400, 100, 300, 200, 50 meets every condition of the claim, and
  \<open>extract_baselines\<close> returns \<open>[400, 100, 300, 200]\<close>, the first four in encounter
  order: rows 0 to 3 are then not in top-to-bottom (increasing-y) order.
\<close>

theorem unsorted_baselines_counterexample:
  "unsorted_grid_example \<in> set [unsorted_grid_example] \<and>
   baseline_rule unsorted_grid_example \<and>
   4 \<le> length (surviving_ys (get_items unsorted_grid_example)) \<and>
   extract_baselines [unsorted_grid_example] = Inr (Some [400, 100, 300, 200]) \<and>
   \<not> sorted [400, 100, 300, 200 :: real]"
proof -
  have g: "surviving_ys (get_items unsorted_grid_example) = [400, 100, 300, 200, 50]"
    by (simp add: rule_defs example_defs)
  have b: "baseline_rule unsorted_grid_example"
    by (simp add: rule_defs example_defs)
  have "extract_baselines [unsorted_grid_example] = Inr (Some [400, 100, 300, 200])"
    using b g by (simp add: extract_baselines_step grid_path_def del: extract_baselines.simps)
  with b g show ?thesis by simp
qed

text \<open>
  Claim C1, amended. When the list of paths contains a path \<open>p\<close> that is black, has a
  width strictly between 0.35 and 0.45 and at least 4 draw commands, and at least 4 of
  its line commands are horizontal (y-difference below 0.01), span more than 500 and lie
  above the cutoff 760, then \<open>extract_baselines\<close> returns four values: the first four
  surviving y-values, in encounter order, of the first path \<open>q\<close> of the list that
  meets these conditions; they are taken by position as the baselines of rows 0 to 3.
  Every returned value is the y of a qualifying line of \<open>q\<close>, so no decoy path (one
  failing the rule, or with fewer than 4 surviving lines) and no decoy command contributes
  a value. Nothing is stated about the order of the values in y.
\<close>

theorem extract_baselines_first_four:
  assumes "p \<in> set paths" and "baseline_rule p"
    and "4 \<le> length (surviving_ys (get_items p))"
  shows "\<exists>pre q suf. paths = pre @ q # suf \<and> (\<forall>r \<in> set pre. \<not> grid_path r) \<and>
           baseline_rule q \<and> 4 \<le> length (surviving_ys (get_items q)) \<and>
           extract_baselines paths = Inr (Some (take 4 (surviving_ys (get_items q)))) \<and>
           length (take 4 (surviving_ys (get_items q))) = 4 \<and>
           (\<forall>y \<in> set (take 4 (surviving_ys (get_items q))).
              \<exists>it \<in> set (get_items q). segment_baseline it = Some y)"
proof -
  from assms have "\<exists>r \<in> set paths. grid_path r"
    by (auto simp: grid_path_def)
  from split_list_first_prop [OF this]
  obtain pre q suf where split: "paths = pre @ q # suf" "grid_path q"
    "\<forall>r \<in> set pre. \<not> grid_path r"
    by blast
  have res: "extract_baselines paths = Inr (Some (take 4 (surviving_ys (get_items q))))"
    using split by (simp add: extract_baselines_append extract_baselines_step del: extract_baselines.simps)
  have src: "\<forall>y \<in> set (take 4 (surviving_ys (get_items q))).
      \<exists>it \<in> set (get_items q). segment_baseline it = Some y"
    by (fastforce simp: surviving_ys_def map_filter_def dest: in_set_takeD)
  have q: "baseline_rule q" "4 \<le> length (surviving_ys (get_items q))"
    using split(2) by (simp_all add: grid_path_def)
  have len: "length (take 4 (surviving_ys (get_items q))) = 4"
    using q(2) by simp
  from split(1,3) q res len src show ?thesis
    by blast
qed

theorem extract_baselines_first_four_witness:
  "grid_example \<in> set [frame_example, red_example, sparse_example, grid_example] \<and>
   baseline_rule grid_example \<and>
   4 \<le> length (surviving_ys (get_items grid_example)) \<and>
   extract_baselines [frame_example, red_example, sparse_example, grid_example] =
     Inr (Some [100, 200, 300, 400])"
proof -
  have a: "grid_example \<in> set [frame_example, red_example, sparse_example, grid_example]"
    by simp
  have b: "baseline_rule grid_example"
    by (simp add: rule_defs example_defs)
  have c: "4 \<le> length (surviving_ys (get_items grid_example))"
    by (simp add: rule_defs example_defs)
  have g: "surviving_ys (get_items grid_example) = [100, 200, 300, 400, 500]"
    by (simp add: rule_defs example_defs)
  have d: "\<not> grid_path frame_example" "\<not> grid_path red_example" "\<not> grid_path sparse_example"
    by (simp_all add: rule_defs example_defs)
  have e: "grid_path grid_example"
    using b c by (simp add: grid_path_def)
  from extract_baselines_first_four [OF a b c] obtain bl where
    "extract_baselines [frame_example, red_example, sparse_example, grid_example] = Inr (Some bl)"
    by blast
  then have "extract_baselines [frame_example, red_example, sparse_example, grid_example] =
      Inr (Some [100, 200, 300, 400])"
    using d e g by (simp add: extract_baselines_step del: extract_baselines.simps)
  with a b c show ?thesis by simp
qed

text \<open>
  Claim C2. \<open>extract_baselines\<close> returns \<^verbatim>\<open>None\<close>, and \<open>main\<close> raises the
  RuntimeError "Could not find baseline grid lines in PDF", exactly when every path
  either fails the baseline classification rule or holds fewer than 4 qualifying
  horizontal segments. On this failure the output file is left as it was: the run stops
  there, with no other attempt. In every other case four baselines are found and
  \<open>main\<close> does not raise that error.
\<close>

theorem baseline_not_found_iff:
  "if \<forall>p \<in> set page. \<not> baseline_rule p \<or> length (surviving_ys (get_items p)) < 4
   then extract_baselines page = Inr None \<and>
        main page fs = (Inl (RuntimeError ''Could not find baseline grid lines in PDF''), fs)
   else (\<exists>bl. extract_baselines page = Inr (Some bl) \<and> length bl = 4) \<and>
        (\<forall>msg. fst (main page fs) \<noteq> Inl (RuntimeError msg))"
proof (cases "\<forall>p \<in> set page. \<not> baseline_rule p \<or> length (surviving_ys (get_items p)) < 4")
  case True
  then have "List.find grid_path page = None"
    by (auto simp: find_None_iff grid_path_def)
  then have "extract_baselines page = Inr None"
    by (simp add: extract_baselines_find)
  with True show ?thesis
    by (simp add: main_no_baselines)
next
  case False
  then have "\<exists>q \<in> set page. grid_path q"
    by (auto simp: grid_path_def not_less)
  then obtain q where q: "List.find grid_path page = Some q"
    by (cases "List.find grid_path page") (auto simp: find_None_iff)
  then have bl: "extract_baselines page = Inr (Some (take 4 (surviving_ys (get_items q))))"
    by (simp add: extract_baselines_find)
  from main_cases [OF bl, of fs] have "\<forall>msg. fst (main page fs) \<noteq> Inl (RuntimeError msg)"
    by (auto split: if_splits)
  with False bl extract_baselines_Some_length [OF bl] show ?thesis
    by simp
qed

theorem baseline_not_found_iff_witness:
  "extract_baselines [frame_example, red_example, sparse_example] = Inr None \<and>
   main [frame_example, red_example, sparse_example] None =
     (Inl (RuntimeError ''Could not find baseline grid lines in PDF''), None) \<and>
   fst (main [frame_example, red_example, sparse_example, grid_example] None) \<noteq>
     Inl (RuntimeError ''Could not find baseline grid lines in PDF'')"
  using baseline_not_found_iff [of "[frame_example, red_example, sparse_example]" None]
    baseline_not_found_iff [of "[frame_example, red_example, sparse_example, grid_example]" None]
  by (simp add: rule_defs example_defs)

text \<open>
  Claim C10. A path whose width is absent (the key is missing, or its value is
  \<^verbatim>\<open>None\<close>) is neither a baseline path nor a waveform path. Both conditions
  evaluate to a truth value and never to the TypeError of comparing \<^verbatim>\<open>None\<close>
  with a number: a \<^verbatim>\<open>None\<close> width is caught by the guard before the comparison,
  and a missing key is compared as the default 0. Removing the path from the page
  changes neither the baselines found nor the rows of waveform points.
\<close>

theorem absent_width_ignored:
  assumes "path_width p = None \<or> path_width p = Some None"
  shows "get_width p = (if path_width p = None then Some 0 else None) \<and>
         is_baseline_path p = Inr False \<and> waveform_skip p = Inr True \<and>
         extract_baselines (pre @ p # suf) = extract_baselines (pre @ suf) \<and>
         process_path p bl rws = Inr rws \<and>
         extract_ecg_waveform_rows (pre @ p # suf) bl =
           extract_ecg_waveform_rows (pre @ suf) bl"
proof -
  from assms have w: "\<not> width_in_range p"
    by (auto simp: width_in_range_def get_width_def)
  then have nb: "\<not> baseline_rule p" and nw: "\<not> waveform_rule p"
    by (simp_all add: baseline_rule_def waveform_rule_def)
  have skip: "waveform_skip p = Inr True"
    using nw by (simp add: waveform_skip_rule)
  have "extract_baselines (pre @ p # suf) = extract_baselines (pre @ suf)"
    using nb by (auto simp add: extract_baselines_append extract_baselines_step grid_path_def simp del: extract_baselines.simps)
  moreover have "process_path p bl rws = Inr rws"
    using skip by (simp add: process_path_def)
  moreover have "target_row bl p = None"
    using nw by (simp add: target_row_def)
  then have "extract_ecg_waveform_rows (pre @ p # suf) bl =
      extract_ecg_waveform_rows (pre @ suf) bl"
    by (simp add: extract_ecg_waveform_rows_eq fun_eq_iff)
  ultimately show ?thesis
    using assms nb skip by (auto simp: is_baseline_path_rule get_width_def)
qed

theorem absent_width_ignored_witness:
  "path_width none_width_example = Some None \<and> path_width missing_width_example = None \<and>
   is_baseline_path none_width_example = Inr False \<and>
   is_baseline_path missing_width_example = Inr False \<and>
   waveform_skip none_width_example = Inr True \<and>
   waveform_skip missing_width_example = Inr True \<and>
   extract_baselines [none_width_example, missing_width_example] = Inr None"
  using absent_width_ignored [of none_width_example "[]" "[missing_width_example]"]
    absent_width_ignored [of missing_width_example "[]" "[]"]
  by (simp add: example_defs)

lemma extract_points_walk:
  "extract_points items pts =
     pts @ walk_lines (if pts = [] then None else Some (last pts)) items"
  by (induction items pts rule: extract_points.induct)
    (auto simp: near_duplicate_def not_less)

lemma path_points_walk: "path_points p = walk_lines None (get_items p)"
  by (simp add: path_points_def extract_points_walk)

text \<open>
  Claim C4. The point extraction of a path walks its line commands in order: the first
  endpoint is appended only when it differs from the most recently appended point by
  more than 0.001 in at least one axis (when nothing has been appended yet it is
  appended), and the second endpoint is always appended; this is \<open>walk_lines\<close>, and
  the loop of the code computes the same list. For every row, the returned list is the
  concatenation, in page order, of the points of the paths assigned to that row, sorted
  by x ascending: it is sorted on x and has the same points with the same multiplicity.
\<close>

theorem points_walk_and_rows_sorted:
  "extract_points (get_items p) [] = walk_lines None (get_items p) \<and>
   (\<exists>rws. extract_ecg_waveform_rows paths bl = Inr rws \<and>
      (\<forall>ri<length bl.
         rws ri = Some (sort_key fst
           (concat (map (\<lambda>q. extract_points (get_items q) [])
              (filter (\<lambda>q. target_row bl q = Some ri) paths)))) \<and>
         sorted (map fst (the (rws ri))) \<and>
         mset (the (rws ri)) =
           mset (concat (map (\<lambda>q. extract_points (get_items q) [])
              (filter (\<lambda>q. target_row bl q = Some ri) paths)))))"
  using path_points_walk [of p]
  by (simp add: extract_ecg_waveform_rows_eq path_points_def [abs_def])

text \<open>
  Claim C5. The deduplication of a row's points (drop a point whose x differs by at
  most 0.01 from the last kept point, keep the first of each cluster) is idempotent:
  on every non-empty list it returns a list on which it returns that same list. The
  result is the first point followed by \<open>kept_after\<close> of the rest. An empty row never
  reaches the deduplication: \<^verbatim>\<open>main\<close> skips it first.
\<close>

theorem dedup_idempotent:
  assumes "pts \<noteq> []"
  shows "\<exists>d. dedup pts = Inr d \<and> dedup d = Inr d \<and> d \<noteq> [] \<and>
           d = hd pts # kept_after (fst (hd pts)) (tl pts)"
proof -
  from assms obtain p0 ps where pts: "pts = p0 # ps" by (cases pts) auto
  have "dedup (p0 # kept_after (fst p0) ps) = Inr (p0 # kept_after (fst p0) ps)"
    by (simp add: dedup_Cons kept_after_idem)
  with pts show ?thesis by (simp add: dedup_Cons)
qed

theorem dedup_idempotent_witness:
  "[(0, 5), (0.005, 6), (0.0101, 7), (1, 8)] \<noteq> ([] :: points) \<and>
   dedup [(0, 5), (0.005, 6), (0.0101, 7), (1, 8)] = Inr [(0, 5), (0.0101, 7), (1, 8)] \<and>
   dedup [(0, 5), (0.0101, 7), (1, 8)] = Inr [(0, 5), (0.0101, 7), (1, 8)]"
  using dedup_idempotent [of "[(0, 5), (0.005, 6), (0.0101, 7), (1, 8)]"]
  by (simp add: dedup_def)

lemma walk_lines_padding:
  "walk_lines recent (items @ replicate n (Rect a b)) = walk_lines recent items"
proof (induction recent items rule: walk_lines.induct)
  case (1 recent)
  show ?case by (induction n) simp_all
qed simp_all

lemma wave_path_points: "path_points (wave_path c lines) = walk_lines None lines"
  by (simp add: path_points_walk wave_path_def pad40_def get_items_def walk_lines_padding)

lemma wave_path_rule: "waveform_rule (wave_path c lines) = (c = (0, 0, 0))"
  by (auto simp: waveform_rule_def wave_path_def pad40_def width_in_range_def get_items_def
      get_color_def get_width_def)

lemma wave_path_not_grid: "\<forall>it \<in> set lines. segment_baseline it = None \<Longrightarrow>
    \<not> grid_path (wave_path c lines)"
  by (simp add: grid_path_def surviving_ys_def wave_path_def pad40_def get_items_def
      map_filter_def filter_empty_conv [THEN iffD2])

lemmas wave_defs = wave0_lines_def wave2_lines_def wave3_lines_def near_duplicate_def

lemma wave_points:
  "path_points (wave_path c wave0_lines) = [(30, 71.654), (31, 100), (32, 128.346)]"
  "path_points (wave_path c wave2_lines) = [(30, 300), (31, 300)]"
  "path_points (wave_path c wave3_lines) = [(30, 343.308), (31, 400), (32, 456.692), (33, 400)]"
  by (simp_all add: wave_path_points wave_defs)

lemma example_targets:
  "target_row example_baselines (wave_path (0, 0, 0) wave0_lines) = Some 0"
  "target_row example_baselines (wave_path (0, 0, 0) wave2_lines) = Some 2"
  "target_row example_baselines (wave_path (0, 0, 0) wave3_lines) = Some 3"
  "target_row example_baselines (wave_path (1, 0, 0) wave0_lines) = None"
  "target_row example_baselines frame_example = None"
  "target_row example_baselines grid_example = None"
  by (simp_all add: target_row_def wave_path_rule wave_points np_mean_def example_baselines_def
      enumerate_simps lt_dist_def dist_below_def)
    (simp_all add: waveform_rule_def width_in_range_def get_items_def get_color_def
      get_width_def example_defs)

lemma example_not_grid:
  "\<not> grid_path (wave_path c wave0_lines)"
  "\<not> grid_path (wave_path c wave2_lines)"
  "\<not> grid_path (wave_path c wave3_lines)"
  "\<not> grid_path frame_example"
  by (simp_all add: wave_path_not_grid wave_defs)
    (simp add: grid_path_def baseline_rule_def width_in_range_def get_width_def example_defs)

lemma example_grid:
  "grid_path grid_example"
  "take 4 (surviving_ys (get_items grid_example)) = example_baselines"
  by (simp_all add: rule_defs example_defs example_baselines_def)

lemma example_page_baselines: "extract_baselines example_page = Inr (Some example_baselines)"
  by (simp add: example_page_def extract_baselines_step example_not_grid example_grid
      del: extract_baselines.simps)

lemma example_page_rows:
  "\<exists>rws. extract_ecg_waveform_rows example_page example_baselines = Inr rws \<and>
     rws 0 = Some [(30, 71.654), (31, 100), (32, 128.346)] \<and>
     rws 1 = Some [] \<and>
     rws 2 = Some [(30, 300), (31, 300)] \<and>
     rws 3 = Some [(30, 343.308), (31, 400), (32, 456.692), (33, 400)]"
  by (simp add: extract_ecg_waveform_rows_eq example_page_def example_targets wave_points)
     (simp add: example_baselines_def)

lemma length_kept_after: "length (kept_after x ps) \<le> length ps"
  by (induction ps arbitrary: x) (auto intro: le_SucI)

lemma row_voltages_length_le:
  "rws ri = Some pts \<Longrightarrow> length (row_voltages rws bl ri) \<le> length pts"
  by (cases pts) (simp_all add: row_voltages_def dedup_loop_eq length_kept_after)

lemma row_voltages_Nil_iff:
  "rws ri \<noteq> None \<Longrightarrow> (row_voltages rws bl ri = []) = (rws ri = Some [])"
  by (auto simp: row_voltages_def dedup_loop_not_Nil split: option.splits list.splits)

lemma example_signal:
  "\<exists>rws. extract_ecg_waveform_rows example_page example_baselines = Inr rws \<and>
     row_voltages rws example_baselines 0 = [1, 0, - 1] \<and>
     row_voltages rws example_baselines 1 = [] \<and>
     row_voltages rws example_baselines 2 = [0, 0] \<and>
     row_voltages rws example_baselines 3 = [2, 0, - 2, 0] \<and>
     concat_rows rws example_baselines = Inr [1, 0, - 1, 0, 0, 2, 0, - 2, 0]"
proof -
  from example_page_rows obtain rws where
    rws: "extract_ecg_waveform_rows example_page example_baselines = Inr rws"
    and r0: "rws 0 = Some [(30, 71.654), (31, 100), (32, 128.346)]"
    and r1: "rws 1 = Some []"
    and r2: "rws 2 = Some [(30, 300), (31, 300)]"
    and r3: "rws 3 = Some [(30, 343.308), (31, 400), (32, 456.692), (33, 400)]"
    by blast
  have v0: "row_voltages rws example_baselines 0 = [1, 0, - 1]"
    by (simp add: row_voltages_def r0 example_baselines_def CAL_PT_PER_MV_def)
  have v1: "row_voltages rws example_baselines 1 = []"
    using r1 by (simp add: row_voltages_def)
  have v2: "row_voltages rws example_baselines 2 = [0, 0]"
    by (simp add: row_voltages_def r2 example_baselines_def CAL_PT_PER_MV_def)
  have v3: "row_voltages rws example_baselines 3 = [2, 0, - 2, 0]"
    by (simp add: row_voltages_def r3 example_baselines_def CAL_PT_PER_MV_def)
  have "\<forall>ri<length example_baselines. rws ri \<noteq> None"
    using rws by (auto dest: extract_rows_defined)
  then have "concat_rows rws example_baselines =
      Inr (concat (map (row_voltages rws example_baselines) [0..<length example_baselines]))"
    by (rule concat_rows_eq)
  also have "length example_baselines = 4"
    by (simp add: example_baselines_def)
  finally have "concat_rows rws example_baselines = Inr [1, 0, - 1, 0, 0, 2, 0, - 2, 0]"
    using v1 by (simp add: upt_4 v0 v2 v3)
  with rws v0 v1 v2 v3 show ?thesis by blast
qed

text \<open>
  Claim C3 as stated fails. A red path of width 0.4 with 40 draw commands, whose three
  points have their mean y on the first baseline, meets every condition of the claim
  (colour not pure black), yet the loop body skips it and every row stays empty: the code
  says \<^verbatim>\<open>continue\<close> when the colour differs from pure black.
\<close>

theorem nonblack_waveform_counterexample:
  "get_color (wave_path (1, 0, 0) wave0_lines) \<noteq> Some (0, 0, 0) \<and>
   get_width (wave_path (1, 0, 0) wave0_lines) = Some 0.4 \<and>
   length (get_items (wave_path (1, 0, 0) wave0_lines)) = 40 \<and>
   extract_points (get_items (wave_path (1, 0, 0) wave0_lines)) [] =
     [(30, 71.654), (31, 100), (32, 128.346)] \<and>
   \<bar>np_mean (map snd [(30 :: real, 71.654 :: real), (31, 100), (32, 128.346)]) - 100\<bar> < 80 \<and>
   process_path (wave_path (1, 0, 0) wave0_lines) [100, 200, 300, 400]
       (init_rows [100, 200, 300, 400]) =
     Inr (init_rows [100, 200, 300, 400]) \<and>
   map_sum id (\<lambda>rws. map rws [0, 1, 2, 3])
       (extract_ecg_waveform_rows [wave_path (1, 0, 0) wave0_lines] [100, 200, 300, 400]) =
     Inr [Some [], Some [], Some [], Some []]"
proof -
  have pts: "extract_points (get_items (wave_path (1, 0, 0) wave0_lines)) [] =
      [(30, 71.654), (31, 100), (32, 128.346)]"
    using wave_points(1) [of "(1, 0, 0)"] by (simp add: path_points_def)
  have skip: "waveform_skip (wave_path (1, 0, 0) wave0_lines) = Inr True"
    by (simp add: waveform_skip_def get_color_def wave_path_def)
  have nt: "target_row [100, 200, 300, 400] (wave_path (1, 0, 0) wave0_lines) = None"
    by (simp add: target_row_def wave_path_rule)
  show ?thesis
    by (simp add: pts process_path_def skip extract_ecg_waveform_rows_eq nt np_mean_def)
      (simp add: get_color_def get_width_def get_items_def wave_path_def pad40_def wave0_lines_def)
qed

text \<open>
  Claim C3, amended. A path contributes points exactly when its colour is pure black
  \<open>(0, 0, 0)\<close>, its width lies strictly between 0.35 and 0.45, it has at least 40 draw
  commands (and its line commands yield at least one point), and the distance from the
  mean y of its points to the nearest baseline is strictly below 80. All its points then
  go to that single row \<open>r\<close>: the row whose baseline is nearest to the mean y, the first
  such row when two are equally near; the other rows are unchanged. In every other case
  the rows are unchanged, and no case is an error.
\<close>

theorem waveform_collect_assign:
  assumes "\<forall>i<length bl. rws i \<noteq> None"
  shows "process_path p bl rws =
           Inr (case target_row bl p of
                  None \<Rightarrow> rws
                | Some r \<Rightarrow> rws(r \<mapsto> the (rws r) @ extract_points (get_items p) [])) \<and>
         (\<forall>r. (target_row bl p = Some r) =
            (get_color p = Some (0, 0, 0) \<and>
             (case get_width p of None \<Rightarrow> False | Some w \<Rightarrow> 0.35 < w \<and> w < 0.45) \<and>
             40 \<le> length (get_items p) \<and>
             extract_points (get_items p) [] \<noteq> [] \<and>
             r < length bl \<and>
             (\<forall>j<length bl.
                \<bar>np_mean (map snd (extract_points (get_items p) [])) - bl ! r\<bar> \<le>
                \<bar>np_mean (map snd (extract_points (get_items p) [])) - bl ! j\<bar>) \<and>
             (\<forall>j<r.
                \<bar>np_mean (map snd (extract_points (get_items p) [])) - bl ! r\<bar> <
                \<bar>np_mean (map snd (extract_points (get_items p) [])) - bl ! j\<bar>) \<and>
             \<bar>np_mean (map snd (extract_points (get_items p) [])) - bl ! r\<bar> < 80))"
proof -
  have step: "process_path p bl rws =
      Inr (case target_row bl p of
             None \<Rightarrow> rws
           | Some r \<Rightarrow> rws(r \<mapsto> the (rws r) @ extract_points (get_items p) []))"
    using process_path_eq [OF assms, of p] unfolding path_points_def .
  have row: "(target_row bl p = Some r) =
      (get_color p = Some (0, 0, 0) \<and>
       (case get_width p of None \<Rightarrow> False | Some w \<Rightarrow> 0.35 < w \<and> w < 0.45) \<and>
       40 \<le> length (get_items p) \<and>
       extract_points (get_items p) [] \<noteq> [] \<and>
       r < length bl \<and>
       (\<forall>j<length bl.
          \<bar>np_mean (map snd (extract_points (get_items p) [])) - bl ! r\<bar> \<le>
          \<bar>np_mean (map snd (extract_points (get_items p) [])) - bl ! j\<bar>) \<and>
       (\<forall>j<r.
          \<bar>np_mean (map snd (extract_points (get_items p) [])) - bl ! r\<bar> <
          \<bar>np_mean (map snd (extract_points (get_items p) [])) - bl ! j\<bar>) \<and>
       \<bar>np_mean (map snd (extract_points (get_items p) [])) - bl ! r\<bar> < 80)" for r
    using target_row_Some_iff [of bl p r]
    unfolding path_points_def nearest_def waveform_rule_def width_in_range_def
    by blast
  from step row show ?thesis by blast
qed

theorem waveform_collect_assign_witness:
  "init_rows example_baselines 0 \<noteq> None \<and> init_rows example_baselines 1 \<noteq> None \<and>
   init_rows example_baselines 2 \<noteq> None \<and> init_rows example_baselines 3 \<noteq> None \<and>
   target_row example_baselines (wave_path (0, 0, 0) wave0_lines) = Some 0 \<and>
   process_path (wave_path (0, 0, 0) wave0_lines) example_baselines
       (init_rows example_baselines) =
     Inr ((init_rows example_baselines)(0 \<mapsto> [(30, 71.654), (31, 100), (32, 128.346)]))"
proof -
  have h: "\<forall>i<length example_baselines. init_rows example_baselines i \<noteq> None"
    by (simp add: init_rows_def)
  have pts: "extract_points (get_items (wave_path (0, 0, 0) wave0_lines)) [] =
      [(30, 71.654), (31, 100), (32, 128.346)]"
    using wave_points(1) [of "(0, 0, 0)"] by (simp add: path_points_def)
  from waveform_collect_assign [OF h, of "wave_path (0, 0, 0) wave0_lines"]
  show ?thesis
    by (simp add: example_targets pts) (simp add: init_rows_def example_baselines_def)
qed

text \<open>
  An instance of claim C4: three paths, two of them assigned to row 0, whose points are
  merged in x order.
\<close>

theorem points_walk_and_rows_sorted_witness:
  "extract_points (get_items (wave_path (0, 0, 0) wave3_lines)) [] =
     [(30, 343.308), (31, 400), (32, 456.692), (33, 400)] \<and>
   map_sum id (\<lambda>rws. map rws [0, 1, 2, 3])
       (extract_ecg_waveform_rows
          [wave_path (0, 0, 0) wave3_lines, wave_path (0, 0, 0) wave0_lines,
           wave_path (0, 0, 0) [Line (Point 10 95) (Point 50 105)]] example_baselines) =
     Inr [Some [(10, 95), (30, 71.654), (31, 100), (32, 128.346), (50, 105)], Some [], Some [],
          Some [(30, 343.308), (31, 400), (32, 456.692), (33, 400)]]"
proof -
  let ?w = "wave_path (0, 0, 0) [Line (Point 10 95) (Point 50 105)]"
  let ?page = "[wave_path (0, 0, 0) wave3_lines, wave_path (0, 0, 0) wave0_lines, ?w]"
  have pw: "path_points ?w = [(10, 95), (50, 105)]"
    by (simp add: wave_path_points near_duplicate_def)
  have tw: "target_row example_baselines ?w = Some 0"
    by (simp add: target_row_def wave_path_rule pw np_mean_def example_baselines_def
        lt_dist_def dist_below_def)
  have len: "length example_baselines = 4"
    by (simp add: example_baselines_def)
  from points_walk_and_rows_sorted [of "wave_path (0, 0, 0) wave3_lines" ?page example_baselines]
  obtain rws where rws: "extract_ecg_waveform_rows ?page example_baselines = Inr rws"
    and rows: "\<forall>ri<length example_baselines.
         rws ri = Some (sort_key fst
           (concat (map (\<lambda>q. extract_points (get_items q) [])
              (filter (\<lambda>q. target_row example_baselines q = Some ri) ?page))))"
    by blast
  have "rws 0 = Some [(10, 95), (30, 71.654), (31, 100), (32, 128.346), (50, 105)]"
    "rws 1 = Some []" "rws 2 = Some []"
    "rws 3 = Some [(30, 343.308), (31, 400), (32, 456.692), (33, 400)]"
    using rows wave_points [of "(0, 0, 0)"] pw
    by (simp_all add: len example_targets tw path_points_def)
  with rws wave_points(3) [of "(0, 0, 0)"] show ?thesis
    by (simp add: path_points_def)
qed

lemma close_page_signal:
  "extract_baselines close_page = Inr (Some example_baselines) \<and>
   (\<exists>rws. extract_ecg_waveform_rows close_page example_baselines = Inr rws \<and>
      rws 0 = Some [(30, 71.654), (30.005, 100), (32, 128.346)] \<and>
      rws 1 = Some [] \<and>
      rws 2 = Some [(30, 300), (31, 300)] \<and>
      rws 3 = Some [(30, 343.308), (31, 400), (32, 456.692), (33, 400)] \<and>
      concat_rows rws example_baselines = Inr [1, - 1, 0, 0, 2, 0, - 2, 0])"
proof -
  have bl: "extract_baselines close_page = Inr (Some example_baselines)"
    by (simp add: close_page_def extract_baselines_step example_grid
        del: extract_baselines.simps)
  have pc: "path_points (wave_path (0, 0, 0) close_lines) =
      [(30, 71.654), (30.005, 100), (32, 128.346)]"
    by (simp add: wave_path_points close_lines_def near_duplicate_def)
  have tc: "target_row example_baselines (wave_path (0, 0, 0) close_lines) = Some 0"
    by (simp add: target_row_def wave_path_rule pc np_mean_def example_baselines_def
        lt_dist_def dist_below_def)
  have len: "length example_baselines = 4"
    by (simp add: example_baselines_def)
  have "\<exists>rws. extract_ecg_waveform_rows close_page example_baselines = Inr rws \<and>
      rws 0 = Some [(30, 71.654), (30.005, 100), (32, 128.346)] \<and>
      rws 1 = Some [] \<and>
      rws 2 = Some [(30, 300), (31, 300)] \<and>
      rws 3 = Some [(30, 343.308), (31, 400), (32, 456.692), (33, 400)]"
    by (simp add: extract_ecg_waveform_rows_eq close_page_def example_targets tc pc
        wave_points len)
  then obtain rws where rws: "extract_ecg_waveform_rows close_page example_baselines = Inr rws"
    and r0: "rws 0 = Some [(30, 71.654), (30.005, 100), (32, 128.346)]"
    and r1: "rws 1 = Some []"
    and r2: "rws 2 = Some [(30, 300), (31, 300)]"
    and r3: "rws 3 = Some [(30, 343.308), (31, 400), (32, 456.692), (33, 400)]"
    by blast
  have v0: "row_voltages rws example_baselines 0 = [1, - 1]"
    by (simp add: row_voltages_def r0 example_baselines_def CAL_PT_PER_MV_def)
  have v1: "row_voltages rws example_baselines 1 = []"
    using r1 by (simp add: row_voltages_def)
  have v2: "row_voltages rws example_baselines 2 = [0, 0]"
    by (simp add: row_voltages_def r2 example_baselines_def CAL_PT_PER_MV_def)
  have v3: "row_voltages rws example_baselines 3 = [2, 0, - 2, 0]"
    by (simp add: row_voltages_def r3 example_baselines_def CAL_PT_PER_MV_def)
  have "\<forall>ri<length example_baselines. rws ri \<noteq> None"
    using rws by (auto dest: extract_rows_defined)
  then have "concat_rows rws example_baselines =
      Inr (concat (map (row_voltages rws example_baselines) [0..<length example_baselines]))"
    by (rule concat_rows_eq)
  then have "concat_rows rws example_baselines = Inr [1, - 1, 0, 0, 2, 0, - 2, 0]"
    using v1 by (simp add: len upt_4 v0 v2 v3)
  with bl rws r0 r1 r2 r3 show ?thesis by blast
qed

text \<open>
  Claim C7 as stated fails. On a page whose rows 0 to 3 hold 3, 0, 2 and 4 points, the
  first two points of row 0 being 0.005 apart in x, the deduplication drops the second
  point of row 0: the signal has 8 samples and the duration is 8/300, not 9 and 9/300.
\<close>

theorem close_points_counterexample:
  "extract_baselines close_page = Inr (Some example_baselines) \<and>
   map_sum id (\<lambda>rws. map (\<lambda>ri. map_option length (rws ri)) [0, 1, 2, 3])
       (extract_ecg_waveform_rows close_page example_baselines) =
     Inr [Some 3, Some 0, Some 2, Some 4] \<and>
   map_sum id total_samples (fst (main close_page None)) = Inr 8 \<and>
   map_sum id duration_sec (fst (main close_page None)) = Inr (8 / 300) \<and>
   map_option samples (snd (main close_page None)) = Some [1, - 1, 0, 0, 2, 0, - 2, 0]"
proof -
  from close_page_signal obtain rws where
    bl: "extract_baselines close_page = Inr (Some example_baselines)"
    and rws: "extract_ecg_waveform_rows close_page example_baselines = Inr rws"
    and r: "rws 0 = Some [(30, 71.654), (30.005, 100), (32, 128.346)]"
      "rws 1 = Some []" "rws 2 = Some [(30, 300), (31, 300)]"
      "rws 3 = Some [(30, 343.308), (31, 400), (32, 456.692), (33, 400)]"
    and sig: "concat_rows rws example_baselines = Inr [1, - 1, 0, 0, 2, 0, - 2, 0]"
    by blast
  have cnt: "map (\<lambda>ri. map_option length (rws ri)) [0, 1, 2, 3] =
      [Some 3, Some 0, Some 2, Some 4]"
    using r by simp
  from main_after_baselines [OF bl rws sig, of None] bl rws cnt show ?thesis
    by (simp add: write_edf_def)
qed

text \<open>
  Claim C7, amended. With \<open>r0\<close>, \<open>r1\<close>, \<open>r2\<close>, \<open>r3\<close> the voltages of the
  deduplicated points of rows 0 to 3, the signal is \<open>r0 @ r1 @ r2 @ r3\<close>: its length is
  the sum of the four lengths, its first \<open>length r0\<close> samples are those of row 0, the
  next \<open>length r1\<close> those of row 1, and so on. A row with no points gives no samples, and
  a row gives at most as many samples as it has points. When the signal is not empty the
  run succeeds and reports its length and its length over 300 as the duration. With 3,
  0, 2 and 4 deduplicated points in the rows the signal has 9 samples, the duration is
  9/300 seconds and the run does not fail; with 3, 0, 2 and 4 points in the rows the run
  does not fail and the signal has at least 1 and at most 9 samples.
\<close>

theorem rows_concatenated_in_order:
  fixes r0 r1 r2 r3 :: "real list"
  assumes bl: "extract_baselines page = Inr (Some bl)"
    and rws: "extract_ecg_waveform_rows page bl = Inr rws"
  defines "r0 \<equiv> row_voltages rws bl 0" and "r1 \<equiv> row_voltages rws bl 1"
    and "r2 \<equiv> row_voltages rws bl 2" and "r3 \<equiv> row_voltages rws bl 3"
  shows "\<exists>signal. concat_rows rws bl = Inr signal \<and>
           signal = r0 @ r1 @ r2 @ r3 \<and>
           length signal = length r0 + length r1 + length r2 + length r3 \<and>
           (\<forall>i<length r0. signal ! i = r0 ! i) \<and>
           (\<forall>i<length r1. signal ! (length r0 + i) = r1 ! i) \<and>
           (\<forall>i<length r2. signal ! (length r0 + length r1 + i) = r2 ! i) \<and>
           (\<forall>i<length r3. signal ! (length r0 + length r1 + length r2 + i) = r3 ! i) \<and>
           (\<forall>ri<4. rws ri = Some [] \<longrightarrow> row_voltages rws bl ri = []) \<and>
           (signal \<noteq> [] \<longrightarrow>
              (\<exists>rep file. main page fs = (Inr rep, Some file) \<and> samples file = signal \<and>
                 total_samples rep = length signal \<and>
                 duration_sec rep = real (length signal) / 300)) \<and>
           (length r0 = 3 \<and> length r1 = 0 \<and> length r2 = 2 \<and> length r3 = 4 \<longrightarrow>
              length signal = 9 \<and>
              (\<exists>rep file. main page fs = (Inr rep, Some file) \<and> length (samples file) = 9 \<and>
                 total_samples rep = 9 \<and> duration_sec rep = 9 / 300)) \<and>
           (\<forall>ri<4. \<forall>pts. rws ri = Some pts \<longrightarrow>
              length (row_voltages rws bl ri) \<le> length pts) \<and>
           (map (\<lambda>ri. map_option length (rws ri)) [0, 1, 2, 3] =
              [Some 3, Some 0, Some 2, Some 4] \<longrightarrow>
              0 < length signal \<and> length signal \<le> 9 \<and>
              (\<exists>rep file. main page fs = (Inr rep, Some file) \<and> samples file = signal \<and>
                 total_samples rep = length signal \<and>
                 duration_sec rep = real (length signal) / 300))"
proof -
  let ?signal = "r0 @ r1 @ r2 @ r3"
  have len: "length bl = 4"
    using bl by (rule extract_baselines_Some_length)
  have defined: "\<forall>ri<length bl. rws ri \<noteq> None"
    using rws by (auto dest: extract_rows_defined)
  have sig: "concat_rows rws bl = Inr ?signal"
    using concat_rows_eq [OF defined]
    by (simp add: len upt_4 r0_def r1_def r2_def r3_def)
  have run: "?signal \<noteq> [] \<Longrightarrow>
      main page fs =
        (Inr \<lparr> total_samples = length ?signal,
               duration_sec = real (length ?signal) / 300,
               voltage_range = (Min (set ?signal), Max (set ?signal)) \<rparr>,
         Some (write_edf ?signal (Min (set ?signal) - 0.1) (Max (set ?signal) + 0.1)))"
    using main_after_baselines [OF bl rws sig, of fs] by simp
  have a: "\<forall>i<length r0. ?signal ! i = r0 ! i"
    by (simp add: nth_append)
  have b: "\<forall>i<length r1. ?signal ! (length r0 + i) = r1 ! i"
    by (simp add: nth_append)
  have c: "\<forall>i<length r2. ?signal ! (length r0 + length r1 + i) = r2 ! i"
    by (simp add: nth_append)
  have d: "\<forall>i<length r3. ?signal ! (length r0 + length r1 + length r2 + i) = r3 ! i"
    by (simp add: nth_append)
  have e: "\<forall>ri<4. rws ri = Some [] \<longrightarrow> row_voltages rws bl ri = []"
    by (simp add: row_voltages_def)
  have f: "?signal \<noteq> [] \<longrightarrow>
      (\<exists>rep file. main page fs = (Inr rep, Some file) \<and> samples file = ?signal \<and>
         total_samples rep = length ?signal \<and>
         duration_sec rep = real (length ?signal) / 300)"
    using run by (simp add: write_edf_def)
  have g: "length r0 = 3 \<and> length r1 = 0 \<and> length r2 = 2 \<and> length r3 = 4 \<longrightarrow>
      length ?signal = 9 \<and>
      (\<exists>rep file. main page fs = (Inr rep, Some file) \<and> length (samples file) = 9 \<and>
         total_samples rep = 9 \<and> duration_sec rep = 9 / 300)"
  proof
    assume n: "length r0 = 3 \<and> length r1 = 0 \<and> length r2 = 2 \<and> length r3 = 4"
    then have l9: "length ?signal = 9" by simp
    then have "?signal \<noteq> []" by auto
    from run [OF this] l9 show "length ?signal = 9 \<and>
      (\<exists>rep file. main page fs = (Inr rep, Some file) \<and> length (samples file) = 9 \<and>
         total_samples rep = 9 \<and> duration_sec rep = 9 / 300)"
      by (simp add: write_edf_def)
  qed
  have h: "length ?signal = length r0 + length r1 + length r2 + length r3"
    by simp
  have k: "\<forall>ri<4. \<forall>pts. rws ri = Some pts \<longrightarrow>
      length (row_voltages rws bl ri) \<le> length pts"
    by (simp add: row_voltages_length_le)
  have m: "map (\<lambda>ri. map_option length (rws ri)) [0, 1, 2, 3] =
      [Some 3, Some 0, Some 2, Some 4] \<longrightarrow>
      0 < length ?signal \<and> length ?signal \<le> 9 \<and>
      (\<exists>rep file. main page fs = (Inr rep, Some file) \<and> samples file = ?signal \<and>
         total_samples rep = length ?signal \<and>
         duration_sec rep = real (length ?signal) / 300)"
  proof
    assume "map (\<lambda>ri. map_option length (rws ri)) [0, 1, 2, 3] =
      [Some 3, Some 0, Some 2, Some 4]"
    then obtain p0 p1 p2 p3 where
      p: "rws 0 = Some p0" "rws 1 = Some p1" "rws 2 = Some p2" "rws 3 = Some p3"
      and n: "length p0 = 3" "length p1 = 0" "length p2 = 2" "length p3 = 4"
      by auto
    have le: "length r0 \<le> 3" "length r1 \<le> 0" "length r2 \<le> 2" "length r3 \<le> 4"
      using row_voltages_length_le [of rws 0 p0 bl] row_voltages_length_le [of rws 1 p1 bl]
        row_voltages_length_le [of rws 2 p2 bl] row_voltages_length_le [of rws 3 p3 bl] p n
      by (simp_all add: r0_def r1_def r2_def r3_def)
    have "r0 \<noteq> []"
      using p(1) n(1) by (auto simp: r0_def row_voltages_Nil_iff)
    then have ne: "?signal \<noteq> []" by simp
    then have pos: "0 < length ?signal" by simp
    have "length ?signal \<le> 9" using le by simp
    with pos f ne show "0 < length ?signal \<and> length ?signal \<le> 9 \<and>
      (\<exists>rep file. main page fs = (Inr rep, Some file) \<and> samples file = ?signal \<and>
         total_samples rep = length ?signal \<and>
         duration_sec rep = real (length ?signal) / 300)"
      by blast
  qed
  from sig a b c d e f g h k m show ?thesis
    by blast
qed

theorem rows_concatenated_in_order_witness:
  "extract_baselines example_page = Inr (Some example_baselines) \<and>
   (\<exists>rws. extract_ecg_waveform_rows example_page example_baselines = Inr rws \<and>
      map (\<lambda>ri. length (row_voltages rws example_baselines ri)) [0, 1, 2, 3] = [3, 0, 2, 4] \<and>
      concat_rows rws example_baselines = Inr [1, 0, - 1, 0, 0, 2, 0, - 2, 0]) \<and>
   (\<exists>rep file. main example_page None = (Inr rep, Some file) \<and> length (samples file) = 9 \<and>
      total_samples rep = 9 \<and> duration_sec rep = 9 / 300)"
proof -
  from example_signal obtain rws where
    rws: "extract_ecg_waveform_rows example_page example_baselines = Inr rws"
    and v: "row_voltages rws example_baselines 0 = [1, 0, - 1]"
      "row_voltages rws example_baselines 1 = []"
      "row_voltages rws example_baselines 2 = [0, 0]"
      "row_voltages rws example_baselines 3 = [2, 0, - 2, 0]"
    and sig: "concat_rows rws example_baselines = Inr [1, 0, - 1, 0, 0, 2, 0, - 2, 0]"
    by blast
  have n: "length (row_voltages rws example_baselines 0) = 3 \<and>
      length (row_voltages rws example_baselines 1) = 0 \<and>
      length (row_voltages rws example_baselines 2) = 2 \<and>
      length (row_voltages rws example_baselines 3) = 4"
    by (simp only: v) simp
  from rows_concatenated_in_order [OF example_page_baselines rws, of None] n
  have "\<exists>rep file. main example_page None = (Inr rep, Some file) \<and>
      length (samples file) = 9 \<and> total_samples rep = 9 \<and> duration_sec rep = 9 / 300"
    by blast
  moreover have "\<exists>rws. extract_ecg_waveform_rows example_page example_baselines = Inr rws \<and>
      map (\<lambda>ri. length (row_voltages rws example_baselines ri)) [0, 1, 2, 3] = [3, 0, 2, 4] \<and>
      concat_rows rws example_baselines = Inr [1, 0, - 1, 0, 0, 2, 0, - 2, 0]"
    using n rws sig by - (rule exI [of _ rws], simp)
  ultimately show ?thesis
    using example_page_baselines by simp
qed

text \<open>
  Claim C8. For a non-empty signal, the physical minimum given to the EDF writer is the
  least sample minus 0.1 and the physical maximum is the greatest sample plus 0.1.
\<close>

theorem physical_range_margin:
  assumes "extract_baselines page = Inr (Some bl)"
    and "extract_ecg_waveform_rows page bl = Inr rws"
    and "concat_rows rws bl = Inr signal"
    and "signal \<noteq> []"
  shows "\<exists>rep file. main page fs = (Inr rep, Some file) \<and> samples file = signal \<and>
           physical_minimum file = Min (set signal) - 0.1 \<and>
           physical_maximum file = Max (set signal) + 0.1"
  using main_after_baselines [OF assms(1-3), of fs] assms(4)
  by (simp add: write_edf_def)

theorem physical_range_margin_witness:
  "extract_baselines example_page = Inr (Some example_baselines) \<and>
   (\<exists>rws. extract_ecg_waveform_rows example_page example_baselines = Inr rws \<and>
      concat_rows rws example_baselines = Inr [1, 0, - 1, 0, 0, 2, 0, - 2, 0]) \<and>
   [1, 0, - 1, 0, 0, 2, 0, - 2, 0] \<noteq> ([] :: real list) \<and>
   (\<exists>rep file. main example_page None = (Inr rep, Some file) \<and>
      samples file = [1, 0, - 1, 0, 0, 2, 0, - 2, 0] \<and>
      physical_minimum file = - 2.1 \<and> physical_maximum file = 2.1)"
proof -
  from example_signal obtain rws where
    rws: "extract_ecg_waveform_rows example_page example_baselines = Inr rws"
    and sig: "concat_rows rws example_baselines = Inr [1, 0, - 1, 0, 0, 2, 0, - 2, 0]"
    by blast
  have ne: "[1, 0, - 1, 0, 0, 2, 0, - 2, 0] \<noteq> ([] :: real list)"
    by simp
  from physical_range_margin [OF example_page_baselines rws sig ne, of None]
  have "\<exists>rep file. main example_page None = (Inr rep, Some file) \<and>
      samples file = [1, 0, - 1, 0, 0, 2, 0, - 2, 0] \<and>
      physical_minimum file = - 2.1 \<and> physical_maximum file = 2.1"
    by simp
  moreover have "\<exists>rws. extract_ecg_waveform_rows example_page example_baselines = Inr rws \<and>
      concat_rows rws example_baselines = Inr [1, 0, - 1, 0, 0, 2, 0, - 2, 0]"
    using rws sig by - (rule exI [of _ rws], simp)
  ultimately show ?thesis
    using example_page_baselines by simp
qed

text \<open>
  Claim C9. When the baselines are found and every row is empty, the signal is empty,
  \<^verbatim>\<open>signal.min()\<close> raises ValueError and the output file is left as it was. When
  at least one row has a point, the run succeeds and writes a file with samples.
\<close>

theorem empty_signal_raises:
  assumes bl: "extract_baselines page = Inr (Some bl)"
    and rws: "extract_ecg_waveform_rows page bl = Inr rws"
  shows "if \<forall>ri<length bl. rws ri = Some []
         then concat_rows rws bl = Inr [] \<and> np_min [] = Inl ValueError \<and>
              main page fs = (Inl ValueError, fs)
         else \<exists>rep file. main page fs = (Inr rep, Some file) \<and> samples file \<noteq> []"
proof -
  let ?signal = "concat (map (row_voltages rws bl) [0..<length bl])"
  have defined: "\<forall>ri<length bl. rws ri \<noteq> None"
    using rws by (auto dest: extract_rows_defined)
  have sig: "concat_rows rws bl = Inr ?signal"
    using defined by (rule concat_rows_eq)
  have empty: "(?signal = []) = (\<forall>ri<length bl. rws ri = Some [])"
    using defined by (auto simp: row_voltages_Nil_iff)
  show ?thesis
  proof (cases "\<forall>ri<length bl. rws ri = Some []")
    case True
    with empty have "?signal = []" by simp
    with main_after_baselines [OF bl rws sig, of fs] sig True show ?thesis
      by (simp add: np_min_def)
  next
    case False
    with empty have "?signal \<noteq> []" by simp
    with main_after_baselines [OF bl rws sig, of fs] False show ?thesis
      by (simp add: write_edf_def)
  qed
qed

theorem empty_signal_raises_witness:
  "extract_baselines [grid_example] = Inr (Some example_baselines) \<and>
   (\<exists>rws. extract_ecg_waveform_rows [grid_example] example_baselines = Inr rws \<and>
      map rws [0, 1, 2, 3] = [Some [], Some [], Some [], Some []]) \<and>
   main [grid_example] None = (Inl ValueError, None)"
proof -
  have bl: "extract_baselines [grid_example] = Inr (Some example_baselines)"
    by (simp add: extract_baselines_step example_grid del: extract_baselines.simps)
  obtain rws where rws: "extract_ecg_waveform_rows [grid_example] example_baselines = Inr rws"
    and rows: "\<forall>ri<length example_baselines. rws ri = Some []"
    by (simp add: extract_ecg_waveform_rows_eq example_targets)
  have len: "length example_baselines = 4"
    by (simp add: example_baselines_def)
  from empty_signal_raises [OF bl rws, of None] rows
  have "main [grid_example] None = (Inl ValueError, None)"
    by simp
  moreover have "\<exists>rws. extract_ecg_waveform_rows [grid_example] example_baselines = Inr rws \<and>
      map rws [0, 1, 2, 3] = [Some [], Some [], Some [], Some []]"
    using rows rws by - (rule exI [of _ rws], simp add: len)
  ultimately show ?thesis
    using bl by simp
qed

end
